theory Spec2Isabelle
  imports Complex_Main "HOL-Library.Log_Nat"
begin

section \<open>Position encoders of \<^verbatim>\<open>opennmt/layers/position.py\<close>\<close>

text \<open>
  The module is written against a tensor runtime. A tensor is modelled by its shape and
  its elements as nested lists in row-major order; a rank-1 tensor is a plain list (its
  shape is its length). The shape is kept beside the elements because a nested list
  forgets the trailing dimensions as soon as a leading one is 0.

  Floating-point elements are real numbers. The two casts of the module round as the
  runtime does: an integer position to \<^verbatim>\<open>float32\<close>, which moves a position above
  \<open>2 ^ 24\<close> by whole units, and the encoding to the floating-point type of the layer. The
  rounding inside the arithmetic on \<^verbatim>\<open>float32\<close> values (a relative error of
  \<open>2 ^ - 24\<close> for each operation) is not modelled: \<^verbatim>\<open>tf.sin\<close>, \<^verbatim>\<open>tf.cos\<close>,
  \<^verbatim>\<open>np.exp\<close>, \<^verbatim>\<open>math.log\<close> and the products are the real functions. Python integers
  are \<^typ>\<open>int\<close>; the elements of a tensor of integers are 32-bit integers.
\<close>

subsection \<open>Errors\<close>

text \<open>
  \<^verbatim>\<open>ValueError\<close> and \<^verbatim>\<open>ZeroDivisionError\<close> are the Python exceptions;
  \<^verbatim>\<open>InvalidArgumentError\<close> is the error the tensor runtime raises when an operation
  is given operands it cannot handle (shapes that do not fit, an index out of range).
\<close>

datatype error = ValueError | ZeroDivisionError | InvalidArgumentError

subsection \<open>Tensors\<close>

datatype 'a tensor2 =
  Tensor2 (dim2_0: nat) (dim2_1: nat) (elems2: "'a list list")

datatype 'a tensor3 =
  Tensor3 (dim3_0: nat) (dim3_1: nat) (dim3_2: nat) (elems3: "'a list list list")

definition shape3 :: "'a tensor3 \<Rightarrow> nat list" where
  "shape3 t = [dim3_0 t, dim3_1 t, dim3_2 t]"

text \<open>
  A value of the tensor types is a tensor when its elements fill its shape. Positions are
  tensors of integers of shape \<open>[B, T]\<close>, as \<^verbatim>\<open>call\<close> passes them to \<^verbatim>\<open>encode\<close>;
  inputs and encodings are tensors of shape \<open>[B, T, D]\<close>.
\<close>

definition wf2 :: "'a tensor2 \<Rightarrow> bool" where
  "wf2 t \<longleftrightarrow>
     length (elems2 t) = dim2_0 t \<and> list_all (\<lambda>r. length r = dim2_1 t) (elems2 t)"

definition wf3 :: "'a tensor3 \<Rightarrow> bool" where
  "wf3 t \<longleftrightarrow>
     length (elems3 t) = dim3_0 t \<and>
     list_all (\<lambda>r. length r = dim3_1 t \<and> list_all (\<lambda>c. length c = dim3_2 t) r) (elems3 t)"

subsection \<open>The operations of the tensor runtime that the module calls\<close>

text \<open>Rounding of a real number to the nearest integer, a tie to the even one.\<close>

definition round_half_even :: "real \<Rightarrow> int" where
  "round_half_even y =
     (let f = \<lfloor>y\<rfloor>; r = y - real_of_int f
      in if r < 1 / 2 then f else if 1 / 2 < r then f + 1 else if even f then f else f + 1)"

text \<open>
  An integer as a \<^verbatim>\<open>float32\<close> number: the significand has 24 bits, so an integer of
  more than 24 bits is rounded to a multiple of the power of two that its surplus bits
  span. (The 32-bit integers are far below the largest \<^verbatim>\<open>float32\<close> number.)
\<close>

definition float32_of_int :: "int \<Rightarrow> real" where
  "float32_of_int p =
     (let e = bitlen \<bar>p\<bar> - 24
      in if e \<le> 0 then real_of_int p
         else real_of_int (round_half_even (real_of_int p / 2 ^ nat e)) * 2 ^ nat e)"

text \<open>\<^verbatim>\<open>tf.cast(positions, tf.float32)\<close> on a tensor of integers.\<close>

definition tf_cast_float32 :: "int tensor2 \<Rightarrow> real tensor2" where
  "tf_cast_float32 t = Tensor2 (dim2_0 t) (dim2_1 t) (map (map float32_of_int) (elems2 t))"

text \<open>
  \<^verbatim>\<open>np.arange(n, dtype=np.float32)\<close>: the values 0, 1, ... below \<open>n\<close>, none when
  \<open>n \<le> 0\<close>.
\<close>

definition np_arange :: "int \<Rightarrow> real list" where
  "np_arange n = map real [0..<nat n]"

text \<open>\<^verbatim>\<open>tf.tile(xs, [n])\<close> on a rank-1 tensor: \<open>n\<close> copies, one after the other.\<close>

definition tf_tile1 :: "'a list \<Rightarrow> nat \<Rightarrow> 'a list" where
  "tf_tile1 xs n = concat (replicate n xs)"

text \<open>
  \<^verbatim>\<open>tf.reshape(xs, [b, -1])\<close> on a rank-1 tensor: \<open>b\<close> rows in row-major order, the
  row length inferred from the number of elements, which \<open>b\<close> must divide. With
  \<open>b = 0\<close> only the empty tensor can be reshaped, and the runtime infers the row length
  1 for it.
\<close>

definition tf_reshape_rows :: "'a list \<Rightarrow> nat \<Rightarrow> error + 'a tensor2" where
  "tf_reshape_rows xs b =
     (if b = 0 then (if xs = [] then Inr (Tensor2 0 1 []) else Inl InvalidArgumentError)
      else if length xs mod b \<noteq> 0 then Inl InvalidArgumentError
      else let c = length xs div b
           in Inr (Tensor2 b c (map (\<lambda>i. take c (drop (i * c) xs)) [0..<b])))"

text \<open>\<^verbatim>\<open>tf.expand_dims(t, -1)\<close>: shape \<open>[B, T]\<close> to \<open>[B, T, 1]\<close>.\<close>

definition tf_expand_dims_last :: "'a tensor2 \<Rightarrow> 'a tensor3" where
  "tf_expand_dims_last t =
     Tensor3 (dim2_0 t) (dim2_1 t) 1 (map (map (\<lambda>x. [x])) (elems2 t))"

text \<open>\<^verbatim>\<open>tf.expand_dims(t, 1)\<close>: shape \<open>[B, H]\<close> to \<open>[B, 1, H]\<close>.\<close>

definition tf_expand_dims_1 :: "'a tensor2 \<Rightarrow> 'a tensor3" where
  "tf_expand_dims_1 t = Tensor3 (dim2_0 t) 1 (dim2_1 t) (map (\<lambda>r. [r]) (elems2 t))"

text \<open>
  Broadcasting of two dimensions: equal sizes stay, a size 1 stretches to the other size,
  anything else does not fit. An operand of size 1 along a dimension is read at index 0.
\<close>

definition broadcast_dim :: "nat \<Rightarrow> nat \<Rightarrow> nat option" where
  "broadcast_dim m n =
     (if m = n then Some m else if m = 1 then Some n else if n = 1 then Some m else None)"

definition broadcast_index :: "nat \<Rightarrow> nat \<Rightarrow> nat" where
  "broadcast_index d i = (if d = 1 then 0 else i)"

definition at3 :: "'a tensor3 \<Rightarrow> nat \<Rightarrow> nat \<Rightarrow> nat \<Rightarrow> 'a" where
  "at3 t i j k =
     elems3 t ! broadcast_index (dim3_0 t) i ! broadcast_index (dim3_1 t) j
       ! broadcast_index (dim3_2 t) k"

text \<open>The operator \<^verbatim>\<open>*\<close> on two rank-3 tensors, with broadcasting.\<close>

definition tf_multiply :: "real tensor3 \<Rightarrow> real tensor3 \<Rightarrow> error + real tensor3" where
  "tf_multiply a b =
     (case (broadcast_dim (dim3_0 a) (dim3_0 b), broadcast_dim (dim3_1 a) (dim3_1 b),
            broadcast_dim (dim3_2 a) (dim3_2 b)) of
        (Some n0, Some n1, Some n2) \<Rightarrow>
          Inr (Tensor3 n0 n1 n2
                 (map (\<lambda>i. map (\<lambda>j. map (\<lambda>k. at3 a i j k * at3 b i j k) [0..<n2]) [0..<n1])
                    [0..<n0]))
      | _ \<Rightarrow> Inl InvalidArgumentError)"

definition tf_sin :: "real tensor3 \<Rightarrow> real tensor3" where
  "tf_sin t = Tensor3 (dim3_0 t) (dim3_1 t) (dim3_2 t) (map (map (map sin)) (elems3 t))"

definition tf_cos :: "real tensor3 \<Rightarrow> real tensor3" where
  "tf_cos t = Tensor3 (dim3_0 t) (dim3_1 t) (dim3_2 t) (map (map (map cos)) (elems3 t))"

text \<open>
  \<^verbatim>\<open>tf.concat([a, b], axis=2)\<close>: the two tensors must agree on the first two
  dimensions; the cells are joined.
\<close>

definition tf_concat_axis2 :: "'a tensor3 \<Rightarrow> 'a tensor3 \<Rightarrow> error + 'a tensor3" where
  "tf_concat_axis2 a b =
     (if dim3_0 a = dim3_0 b \<and> dim3_1 a = dim3_1 b
      then Inr (Tensor3 (dim3_0 a) (dim3_1 a) (dim3_2 a + dim3_2 b)
                  (map2 (map2 (@)) (elems3 a) (elems3 b)))
      else Inl InvalidArgumentError)"

text \<open>
  Rounding of a real number to a binary floating-point format with \<open>prec\<close> bits of
  significand and least exponent \<open>emin\<close>: to the nearest multiple of the unit in the last
  place, a tie to the even one. (Numbers beyond the largest of the format, which become
  infinite, do not occur where the module casts: it casts sines and cosines.)
\<close>

definition float_round :: "nat \<Rightarrow> int \<Rightarrow> real \<Rightarrow> real" where
  "float_round prec emin x =
     (if x = 0 then 0
      else let e = max \<lfloor>log 2 \<bar>x\<bar>\<rfloor> emin;
               ulp = 2 powr real_of_int (e - (int prec - 1))
           in real_of_int (round_half_even (x / ulp)) * ulp)"

text \<open>
  The floating-point types a layer can work in, and \<^verbatim>\<open>tf.cast(t, dtype)\<close> of a
  \<^verbatim>\<open>float32\<close> tensor to them: \<^verbatim>\<open>float32\<close> and \<^verbatim>\<open>float64\<close> hold every
  \<^verbatim>\<open>float32\<close> number, \<^verbatim>\<open>float16\<close> has 11 bits of significand and least exponent
  \<open>- 14\<close>.
\<close>

datatype float_dtype = Float16 | Float32 | Float64

definition cast_from_float32 :: "float_dtype \<Rightarrow> real \<Rightarrow> real" where
  "cast_from_float32 d x =
     (case d of Float16 \<Rightarrow> float_round 11 (- 14) x | Float32 \<Rightarrow> x | Float64 \<Rightarrow> x)"

definition tf_cast :: "real tensor3 \<Rightarrow> float_dtype \<Rightarrow> real tensor3" where
  "tf_cast t d =
     Tensor3 (dim3_0 t) (dim3_1 t) (dim3_2 t) (map (map (map (cast_from_float32 d))) (elems3 t))"

subsection \<open>PositionEncoder: the fields of the base class\<close>

text \<open>
  \<open>reducer\<close> is the field set by \<^verbatim>\<open>__init__\<close>; \<open>dtype\<close> is the field of the Keras
  layer that \<^verbatim>\<open>encode\<close> reads.
\<close>

record position_encoder =
  reducer :: "real tensor3 list \<Rightarrow> error + real tensor3"
  dtype :: float_dtype

subsection \<open>SinusoidalPositionEncoder.encode\<close>

text \<open>
  \<^verbatim>\<open>math.log(10000) / (depth / 2 - 1)\<close> is a division of Python numbers, which raises
  \<^verbatim>\<open>ZeroDivisionError\<close> on a zero divisor. It is reached with an even \<open>depth\<close> only,
  where \<^verbatim>\<open>depth / 2\<close> is the same number under Python 2 and Python 3.
\<close>

definition py_div :: "real \<Rightarrow> real \<Rightarrow> error + real" where
  "py_div a b = (if b = 0 then Inl ZeroDivisionError else Inr (a / b))"

definition SinusoidalPositionEncoder_encode ::
  "'z position_encoder_scheme \<Rightarrow> int tensor2 \<Rightarrow> int \<Rightarrow> error + real tensor3" where
  "SinusoidalPositionEncoder_encode self positions depth =
     (if depth mod 2 \<noteq> 0 then Inl ValueError
      else
        let batch_size = dim2_0 positions;
            positions = tf_cast_float32 positions
        in case py_div (ln 10000) (real_of_int (depth div 2 - 1)) of
             Inl e \<Rightarrow> Inl e
           | Inr log_timescale_increment \<Rightarrow>
               let inv_timescales =
                     map (\<lambda>x. exp (x * - log_timescale_increment)) (np_arange (depth div 2))
               in case tf_reshape_rows (tf_tile1 inv_timescales batch_size) batch_size of
                    Inl e \<Rightarrow> Inl e
                  | Inr inv_timescales \<Rightarrow>
                      (case tf_multiply (tf_expand_dims_last positions)
                                        (tf_expand_dims_1 inv_timescales) of
                         Inl e \<Rightarrow> Inl e
                       | Inr scaled_time \<Rightarrow>
                           (case tf_concat_axis2 (tf_sin scaled_time) (tf_cos scaled_time) of
                              Inl e \<Rightarrow> Inl e
                            | Inr encoding \<Rightarrow> Inr (tf_cast encoding (dtype self)))))"

subsection \<open>PositionEmbedder\<close>

text \<open>
  \<open>embeddings\<close> is \<^verbatim>\<open>None\<close> until \<^verbatim>\<open>build\<close> has run.
\<close>

record position_embedder = position_encoder +
  maximum_position :: int
  embeddings :: "real tensor2 option"

text \<open>
  \<^verbatim>\<open>build\<close>: the table has \<^verbatim>\<open>maximum_position + 1\<close> rows of the input depth,
  the last entry of \<^verbatim>\<open>input_shape\<close>. Its values come from the initialiser of the
  runtime, here the parameter \<open>init\<close> (row and column to value); the runtime rejects a
  negative dimension.
\<close>

definition add_weight :: "(nat \<Rightarrow> nat \<Rightarrow> real) \<Rightarrow> int \<Rightarrow> nat \<Rightarrow> error + real tensor2" where
  "add_weight init rows cols =
     (if rows < 0 then Inl ValueError
      else Inr (Tensor2 (nat rows) cols
                  (map (\<lambda>i. map (\<lambda>j. init i j) [0..<cols]) [0..<nat rows])))"

definition PositionEmbedder_build ::
  "(nat \<Rightarrow> nat \<Rightarrow> real) \<Rightarrow> position_embedder \<Rightarrow> nat \<Rightarrow> error + position_embedder" where
  "PositionEmbedder_build init self input_depth =
     (case add_weight init (maximum_position self + 1) input_depth of
        Inl e \<Rightarrow> Inl e
      | Inr w \<Rightarrow> Inr (self\<lparr>embeddings := Some w\<rparr>))"

text \<open>\<^verbatim>\<open>tf.minimum(positions, m)\<close> with a scalar \<open>m\<close>: elementwise.\<close>

definition tf_minimum :: "int tensor2 \<Rightarrow> int \<Rightarrow> int tensor2" where
  "tf_minimum t m = Tensor2 (dim2_0 t) (dim2_1 t) (map (map (\<lambda>p. min p m)) (elems2 t))"

text \<open>
  \<^verbatim>\<open>tf.nn.embedding_lookup(params, ids)\<close>: each id is replaced by the row of the table
  with that index. Without a table the call raises \<^verbatim>\<open>ValueError\<close>; an id that is not a
  row of the table is an error of the runtime (its behaviour on CPU).
\<close>

definition valid_ids :: "'a tensor2 \<Rightarrow> int tensor2 \<Rightarrow> bool" where
  "valid_ids table ids \<longleftrightarrow>
     list_all (list_all (\<lambda>i. 0 \<le> i \<and> i < int (dim2_0 table))) (elems2 ids)"

definition tf_embedding_lookup :: "real tensor2 option \<Rightarrow> int tensor2 \<Rightarrow> error + real tensor3" where
  "tf_embedding_lookup params ids =
     (case params of
        None \<Rightarrow> Inl ValueError
      | Some table \<Rightarrow>
          if valid_ids table ids
          then Inr (Tensor3 (dim2_0 ids) (dim2_1 ids) (dim2_1 table)
                      (map (map (\<lambda>i. elems2 table ! nat i)) (elems2 ids)))
          else Inl InvalidArgumentError)"

definition PositionEmbedder_encode ::
  "position_embedder \<Rightarrow> int tensor2 \<Rightarrow> int \<Rightarrow> error + real tensor3" where
  "PositionEmbedder_encode self positions depth =
     (let positions = tf_minimum positions (maximum_position self)
      in tf_embedding_lookup (embeddings self) positions)"

text \<open>
  The table of an embedder that \<^verbatim>\<open>build\<close> created for depth \<open>d0\<close>: a tensor of shape
  \<open>[maximum_position + 1, d0]\<close>. Training may have changed its values, not its shape.
\<close>

definition built_for :: "position_embedder \<Rightarrow> nat \<Rightarrow> bool" where
  "built_for self d0 \<longleftrightarrow>
     (case embeddings self of
        None \<Rightarrow> False
      | Some table \<Rightarrow>
          wf2 table \<and> 0 \<le> maximum_position self + 1 \<and>
          dim2_0 table = nat (maximum_position self + 1) \<and> dim2_1 table = d0)"

subsection \<open>PositionEncoder.call\<close>

text \<open>
  The two concrete layers of the module. \<^verbatim>\<open>self.encode\<close> is the method of the
  layer's class, \<^verbatim>\<open>self.reducer\<close> the field of the base class.
\<close>

datatype layer =
  SinusoidalPositionEncoder position_encoder
| PositionEmbedder position_embedder

definition encode :: "layer \<Rightarrow> int tensor2 \<Rightarrow> int \<Rightarrow> error + real tensor3" where
  "encode self positions depth =
     (case self of
        SinusoidalPositionEncoder s \<Rightarrow> SinusoidalPositionEncoder_encode s positions depth
      | PositionEmbedder s \<Rightarrow> PositionEmbedder_encode s positions depth)"

definition reducer_of :: "layer \<Rightarrow> real tensor3 list \<Rightarrow> error + real tensor3" where
  "reducer_of self =
     (case self of
        SinusoidalPositionEncoder s \<Rightarrow> reducer s
      | PositionEmbedder s \<Rightarrow> reducer s)"

text \<open>\<^verbatim>\<open>tf.range(timesteps) + 1\<close>, a rank-1 tensor.\<close>

definition tf_range_plus_1 :: "nat \<Rightarrow> int list" where
  "tf_range_plus_1 n = map (\<lambda>i. int i + 1) [0..<n]"

text \<open>\<^verbatim>\<open>tf.tile(t, [n, 1, 1])\<close>: \<open>n\<close> copies along the first dimension.\<close>

definition tf_tile_batch :: "'a tensor3 \<Rightarrow> nat \<Rightarrow> 'a tensor3" where
  "tf_tile_batch t n =
     Tensor3 (dim3_0 t * n) (dim3_1 t) (dim3_2 t) (concat (replicate n (elems3 t)))"

text \<open>
  \<^verbatim>\<open>call\<close>. The inputs are a tensor of shape \<open>[B, T, D]\<close>; \<open>position\<close> is
  \<^verbatim>\<open>None\<close> or an integer. \<^verbatim>\<open>[positions]\<close> puts the rank-1 tensor of the timesteps,
  or the list of the one given position, into a batch of one row.
\<close>

definition call :: "layer \<Rightarrow> real tensor3 \<Rightarrow> int option \<Rightarrow> error + real tensor3" where
  "call self inputs position =
     (let batch_size = dim3_0 inputs;
          timesteps = dim3_1 inputs;
          input_dim = int (dim3_2 inputs);
          positions = (case position of
                         None \<Rightarrow> tf_range_plus_1 timesteps
                       | Some p \<Rightarrow> [p])
      in case encode self (Tensor2 1 (length positions) [positions]) input_dim of
           Inl e \<Rightarrow> Inl e
         | Inr position_encoding \<Rightarrow>
             reducer_of self [inputs, tf_tile_batch position_encoding batch_size])"

subsection \<open>The sum reducer\<close>

text \<open>
  Modelled from the spec: \<^verbatim>\<open>opennmt.layers.reducer.SumReducer\<close>, the default reducer,
  is not among the sources. The specification gives its contract: it takes an ordered list
  of tensors with identical leading (batch, time) dimensions, and the element-wise sum
  requires an identical trailing dimension and returns that same trailing dimension. So
  the sum of tensors of one shape is their element-wise sum, of that shape, and tensors of
  different shapes are refused.
\<close>

definition add3 :: "real tensor3 \<Rightarrow> real tensor3 \<Rightarrow> error + real tensor3" where
  "add3 a b =
     (if shape3 a = shape3 b
      then Inr (Tensor3 (dim3_0 a) (dim3_1 a) (dim3_2 a)
                  (map2 (map2 (map2 (+))) (elems3 a) (elems3 b)))
      else Inl InvalidArgumentError)"

text \<open>
  Modelled from the spec: the reducer applied to a list of tensors adds them from left to
  right; the empty list has no sum.
\<close>

fun add_n :: "real tensor3 \<Rightarrow> real tensor3 list \<Rightarrow> error + real tensor3" where
  "add_n acc [] = Inr acc"
| "add_n acc (t # ts) = (case add3 acc t of Inl e \<Rightarrow> Inl e | Inr acc' \<Rightarrow> add_n acc' ts)"

definition SumReducer :: "real tensor3 list \<Rightarrow> error + real tensor3" where
  "SumReducer ts = (case ts of [] \<Rightarrow> Inl ValueError | t # ts' \<Rightarrow> add_n t ts')"

section \<open>Properties\<close>

subsection \<open>Rounding\<close>

lemma round_half_even_of_int: "round_half_even (real_of_int n) = n"
  by (simp add: round_half_even_def)






subsection \<open>The tensor operations on the shapes the encoders use\<close>

lemma length_tf_tile1: "length (tf_tile1 xs n) = n * length xs"
  by (induction n) (simp_all add: tf_tile1_def)

lemma take_drop_tile1:
  "i < n \<Longrightarrow> take (length xs) (drop (i * length xs) (tf_tile1 xs n)) = xs"
proof (induction n arbitrary: i)
  case 0
  then show ?case by simp
next
  case (Suc n)
  show ?case
  proof (cases i)
    case 0
    then show ?thesis by (simp add: tf_tile1_def)
  next
    case (Suc j)
    with Suc.prems have "j < n" by simp
    from Suc.IH [OF this] show ?thesis
      using Suc by (simp add: tf_tile1_def)
  qed
qed

lemma tf_reshape_rows_tile:
  assumes "0 < b"
  shows "tf_reshape_rows (tf_tile1 xs b) b = Inr (Tensor2 b (length xs) (replicate b xs))"
proof -
  have "map (\<lambda>i. take (length xs) (drop (i * length xs) (tf_tile1 xs b))) [0..<b]
        = map (\<lambda>i. xs) [0..<b]"
    by (rule map_cong) (simp_all add: take_drop_tile1)
  also have "\<dots> = replicate b xs"
    by (simp add: map_replicate_const)
  finally show ?thesis
    using assms by (simp add: tf_reshape_rows_def length_tf_tile1)
qed

lemma broadcast_index_less: "i < d \<Longrightarrow> broadcast_index d i = i"
  by (auto simp: broadcast_index_def)

lemma broadcast_dim_same: "broadcast_dim n n = Some n"
  by (simp add: broadcast_dim_def)

lemma broadcast_dim_one_right: "broadcast_dim n (Suc 0) = Some n"
  by (simp add: broadcast_dim_def)

lemma broadcast_dim_one_left: "broadcast_dim (Suc 0) n = Some n"
  by (auto simp add: broadcast_dim_def)

lemma map_upt_eq_map:
  assumes "length xs = n" and "\<And>i. i < n \<Longrightarrow> f i = g (xs ! i)"
  shows "map f [0..<n] = map g xs"
  using assms by (intro nth_equalityI) simp_all

lemma broadcast_index_one: "broadcast_index (Suc 0) i = 0"
  by (simp add: broadcast_index_def)

lemma at3_expand_dims_last:
  assumes "wf2 p" "i < dim2_0 p" "j < dim2_1 p"
  shows "at3 (tf_expand_dims_last p) i j k = elems2 p ! i ! j"
proof -
  have "length (elems2 p) = dim2_0 p" "length (elems2 p ! i) = dim2_1 p"
    using assms by (auto simp: wf2_def list_all_length)
  then show ?thesis
    using assms(2,3)
    by (simp add: at3_def tf_expand_dims_last_def broadcast_index_less broadcast_index_one)
qed

lemma at3_expand_dims_1_replicate:
  assumes "i < b" "k < length ys"
  shows "at3 (tf_expand_dims_1 (Tensor2 b (length ys) (replicate b ys))) i j k = ys ! k"
  using assms
  by (simp add: at3_def tf_expand_dims_1_def broadcast_index_less broadcast_index_one)

lemma tf_multiply_outer:
  assumes "wf2 p"
  shows "tf_multiply (tf_expand_dims_last p)
                     (tf_expand_dims_1 (Tensor2 (dim2_0 p) (length ys) (replicate (dim2_0 p) ys)))
         = Inr (Tensor3 (dim2_0 p) (dim2_1 p) (length ys)
                  (map (map (\<lambda>x. map (\<lambda>y. x * y) ys)) (elems2 p)))"
proof -
  let ?a = "tf_expand_dims_last p"
  let ?b = "tf_expand_dims_1 (Tensor2 (dim2_0 p) (length ys) (replicate (dim2_0 p) ys))"
  have len: "length (elems2 p) = dim2_0 p"
    and row: "\<And>i. i < dim2_0 p \<Longrightarrow> length (elems2 p ! i) = dim2_1 p"
    using assms by (auto simp: wf2_def list_all_length)
  have cell: "map (\<lambda>k. at3 ?a i j k * at3 ?b i j k) [0..<length ys]
              = map (\<lambda>y. elems2 p ! i ! j * y) ys"
    if "i < dim2_0 p" "j < dim2_1 p" for i j
    using that assms
    by (intro map_upt_eq_map [where xs = ys]) (simp_all add: at3_expand_dims_last at3_expand_dims_1_replicate)
  have line: "map (\<lambda>j. map (\<lambda>k. at3 ?a i j k * at3 ?b i j k) [0..<length ys]) [0..<dim2_1 p]
              = map (\<lambda>x. map (\<lambda>y. x * y) ys) (elems2 p ! i)"
    if "i < dim2_0 p" for i
    using that row [OF that]
    by (intro map_upt_eq_map [where xs = "elems2 p ! i"]) (simp_all add: cell)
  have "map (\<lambda>i. map (\<lambda>j. map (\<lambda>k. at3 ?a i j k * at3 ?b i j k) [0..<length ys])
                  [0..<dim2_1 p]) [0..<dim2_0 p]
        = map (map (\<lambda>x. map (\<lambda>y. x * y) ys)) (elems2 p)"
    using len by (intro map_upt_eq_map [where xs = "elems2 p"]) (simp_all add: line)
  moreover have "dim3_0 ?a = dim2_0 p" "dim3_1 ?a = dim2_1 p" "dim3_2 ?a = 1"
    "dim3_0 ?b = dim2_0 p" "dim3_1 ?b = 1" "dim3_2 ?b = length ys"
    by (simp_all add: tf_expand_dims_last_def tf_expand_dims_1_def)
  ultimately show ?thesis
    by (simp add: tf_multiply_def broadcast_dim_same broadcast_dim_one_right
        broadcast_dim_one_left)
qed


lemma map2_same: "map2 f (map g xs) (map h xs) = map (\<lambda>x. f (g x) (h x)) xs"
  by (induction xs) simp_all

lemma tf_concat_sin_cos:
  "tf_concat_axis2 (tf_sin t) (tf_cos t)
   = Inr (Tensor3 (dim3_0 t) (dim3_1 t) (dim3_2 t + dim3_2 t)
            (map (map (\<lambda>c. map sin c @ map cos c)) (elems3 t)))"
  by (simp add: tf_concat_axis2_def tf_sin_def tf_cos_def map2_same)

lemma wf2_tf_cast_float32: "wf2 t \<Longrightarrow> wf2 (tf_cast_float32 t)"
  by (simp add: wf2_def tf_cast_float32_def list_all_length)

lemma sinusoidal_encode_value:
  assumes wf: "wf2 positions" and batch: "0 < dim2_0 positions"
    and even: "depth mod 2 = 0" and half: "depth div 2 \<noteq> 1"
  shows "SinusoidalPositionEncoder_encode self positions depth =
    Inr (Tensor3 (dim2_0 positions) (dim2_1 positions) (nat (depth div 2) + nat (depth div 2))
      (map (map (\<lambda>p. map (cast_from_float32 (dtype self))
         (map (\<lambda>k. sin (float32_of_int p *
                 exp (real k * - (ln 10000 / real_of_int (depth div 2 - 1)))))
            [0..<nat (depth div 2)] @
          map (\<lambda>k. cos (float32_of_int p *
                 exp (real k * - (ln 10000 / real_of_int (depth div 2 - 1)))))
            [0..<nat (depth div 2)])))
       (elems2 positions)))"
proof -
  let ?l = "ln 10000 / real_of_int (depth div 2 - 1)"
  let ?inv = "map (\<lambda>x. exp (x * - ?l)) (np_arange (depth div 2))"
  let ?p = "tf_cast_float32 positions"
  have div: "py_div (ln 10000) (real_of_int (depth div 2 - 1)) = Inr ?l"
    using half by (simp add: py_div_def)
  have len: "length ?inv = nat (depth div 2)"
    by (simp add: np_arange_def)
  have dims: "dim2_0 ?p = dim2_0 positions" "dim2_1 ?p = dim2_1 positions"
    by (simp_all add: tf_cast_float32_def)
  have resh: "tf_reshape_rows (tf_tile1 ?inv (dim2_0 positions)) (dim2_0 positions)
              = Inr (Tensor2 (dim2_0 ?p) (length ?inv) (replicate (dim2_0 ?p) ?inv))"
    using batch by (simp only: tf_reshape_rows_tile dims)
  have mul: "tf_multiply (tf_expand_dims_last ?p)
               (tf_expand_dims_1 (Tensor2 (dim2_0 ?p) (length ?inv) (replicate (dim2_0 ?p) ?inv)))
             = Inr (Tensor3 (dim2_0 ?p) (dim2_1 ?p) (length ?inv)
                      (map (map (\<lambda>x. map (\<lambda>y. x * y) ?inv)) (elems2 ?p)))"
    by (rule tf_multiply_outer) (rule wf2_tf_cast_float32 [OF wf])
  have "SinusoidalPositionEncoder_encode self positions depth =
        Inr (tf_cast
               (Tensor3 (dim2_0 ?p) (dim2_1 ?p) (length ?inv + length ?inv)
                  (map (map (\<lambda>c. map sin c @ map cos c))
                     (map (map (\<lambda>x. map (\<lambda>y. x * y) ?inv)) (elems2 ?p))))
               (dtype self))"
    unfolding SinusoidalPositionEncoder_encode_def Let_def
    using even by (simp only: div resh mul tf_concat_sin_cos
        sum.case tensor3.sel if_False simp_thms)
  also have "\<dots> = Inr (Tensor3 (dim2_0 positions) (dim2_1 positions)
      (nat (depth div 2) + nat (depth div 2))
      (map (map (\<lambda>p. map (cast_from_float32 (dtype self))
         (map (\<lambda>k. sin (float32_of_int p * exp (real k * - ?l))) [0..<nat (depth div 2)] @
          map (\<lambda>k. cos (float32_of_int p * exp (real k * - ?l))) [0..<nat (depth div 2)])))
       (elems2 positions)))"
    by (simp add: tf_cast_def tf_cast_float32_def np_arange_def o_def)
  finally show ?thesis .
qed

lemma embedder_encode_value:
  assumes built: "embeddings self = Some table" "dim2_0 table = nat (maximum_position self + 1)"
    and max: "0 \<le> maximum_position self"
    and nonneg: "list_all (list_all (\<lambda>p. 0 \<le> p)) (elems2 positions)"
  shows "PositionEmbedder_encode self positions depth =
         Inr (Tensor3 (dim2_0 positions) (dim2_1 positions) (dim2_1 table)
                (map (map (\<lambda>p. elems2 table ! nat (min p (maximum_position self))))
                   (elems2 positions)))"
proof -
  have "valid_ids table (tf_minimum positions (maximum_position self))"
    using nonneg max built(2)
    by (auto simp: valid_ids_def tf_minimum_def list_all_iff)
  then show ?thesis
    using built(1) by (simp add: PositionEmbedder_encode_def tf_embedding_lookup_def tf_minimum_def o_def)
qed

lemma built_for_table:
  assumes "built_for self d0"
  obtains table where "embeddings self = Some table" "wf2 table"
    "0 \<le> maximum_position self + 1"
    "dim2_0 table = nat (maximum_position self + 1)" "dim2_1 table = d0"
  using assms by (auto simp: built_for_def split: option.splits)

lemma tf_reshape_rows_dim: "tf_reshape_rows xs b = Inr t \<Longrightarrow> dim2_0 t = b"
  by (auto simp: tf_reshape_rows_def Let_def split: if_splits)

lemma broadcast_dim_one_right_iff: "broadcast_dim n (Suc 0) = Some m \<longleftrightarrow> m = n"
  by (auto simp: broadcast_dim_def)

lemma tf_multiply_dims:
  assumes "tf_multiply a b = Inr c"
  shows "broadcast_dim (dim3_0 a) (dim3_0 b) = Some (dim3_0 c)"
    and "broadcast_dim (dim3_1 a) (dim3_1 b) = Some (dim3_1 c)"
  using assms by (auto simp: tf_multiply_def split: option.splits)

lemma tf_concat_axis2_dims:
  assumes "tf_concat_axis2 a b = Inr c"
  shows "dim3_0 c = dim3_0 a" and "dim3_1 c = dim3_1 a"
  using assms by (auto simp: tf_concat_axis2_def split: if_splits)

lemma sinusoidal_encode_dims:
  assumes "SinusoidalPositionEncoder_encode s positions depth = Inr pe"
  shows "dim3_0 pe = dim2_0 positions" and "dim3_1 pe = dim2_1 positions"
proof -
  from assms obtain l inv st enc where
    resh: "tf_reshape_rows
             (tf_tile1 (map (\<lambda>x. exp (x * - l)) (np_arange (depth div 2))) (dim2_0 positions))
             (dim2_0 positions) = Inr inv"
    and mul: "tf_multiply (tf_expand_dims_last (tf_cast_float32 positions))
                (tf_expand_dims_1 inv) = Inr st"
    and cat: "tf_concat_axis2 (tf_sin st) (tf_cos st) = Inr enc"
    and pe: "pe = tf_cast enc (dtype s)"
    by (auto simp: SinusoidalPositionEncoder_encode_def Let_def split: if_splits sum.splits)
  have "dim2_0 inv = dim2_0 positions"
    using resh by (rule tf_reshape_rows_dim)
  with tf_multiply_dims [OF mul]
  have "dim3_0 st = dim2_0 positions" "dim3_1 st = dim2_1 positions"
    by (simp_all add: tf_expand_dims_last_def tf_expand_dims_1_def tf_cast_float32_def
        broadcast_dim_same broadcast_dim_one_right_iff)
  with tf_concat_axis2_dims [OF cat] pe
  show "dim3_0 pe = dim2_0 positions" and "dim3_1 pe = dim2_1 positions"
    by (simp_all add: tf_cast_def tf_sin_def)
qed

lemma embedder_encode_dims:
  assumes "PositionEmbedder_encode s positions depth = Inr pe"
  shows "dim3_0 pe = dim2_0 positions" and "dim3_1 pe = dim2_1 positions"
  using assms
  by (auto simp: PositionEmbedder_encode_def tf_embedding_lookup_def tf_minimum_def Let_def
      split: option.splits if_splits)

lemma encode_dims:
  assumes "encode self positions depth = Inr pe"
  shows "dim3_0 pe = dim2_0 positions" and "dim3_1 pe = dim2_1 positions"
  using assms
  by (auto simp: encode_def sinusoidal_encode_dims embedder_encode_dims split: layer.splits)

lemma tf_range_plus_1_upto: "tf_range_plus_1 n = [1..int n]"
proof (induction n)
  case 0
  then show ?case by (simp add: tf_range_plus_1_def)
next
  case (Suc n)
  have "[1..int (Suc n)] = [1..int n] @ [int n + 1]"
    by (subst upto_rec2) (simp_all add: add.commute)
  with Suc show ?case
    by (simp add: tf_range_plus_1_def)
qed

lemma length_tf_range_plus_1: "length (tf_range_plus_1 n) = n"
  by (simp add: tf_range_plus_1_def)

lemma SumReducer_pair:
  "SumReducer [a, b] = add3 a b"
  by (simp add: SumReducer_def split: sum.splits)

lemma add3_Inr_iff:
  "(\<exists>out. add3 a b = Inr out) \<longleftrightarrow> shape3 a = shape3 b"
  by (simp add: add3_def)

lemma add3_shape: "add3 a b = Inr out \<Longrightarrow> shape3 out = shape3 a"
  by (auto simp: add3_def shape3_def split: if_splits)

lemma tf_tile_batch_one_row:
  assumes "wf3 pe" "dim3_0 pe = 1"
  shows "elems3 (tf_tile_batch pe n) = replicate n (hd (elems3 pe))"
proof -
  from assms obtain row where "elems3 pe = [row]"
    by (cases "elems3 pe") (auto simp: wf3_def)
  then show ?thesis
    by (induction n) (simp_all add: tf_tile_batch_def)
qed

subsection \<open>SinusoidalPositionEncoder\<close>




text \<open>
  C2. With depth 2 the parity test passes and nothing else looks at the depth before
  \<^verbatim>\<open>math.log(10000) / (depth / 2 - 1)\<close> divides by zero: the call ends in Python's
  \<^verbatim>\<open>ZeroDivisionError\<close>, not in the \<^verbatim>\<open>ValueError\<close> with which \<^verbatim>\<open>encode\<close> rejects a
  depth it cannot use.
\<close>

theorem sinusoidal_encode_depth_2:
  "SinusoidalPositionEncoder_encode self positions 2 = Inl ZeroDivisionError"
  by (simp add: SinusoidalPositionEncoder_encode_def py_div_def)

text \<open>
  C5. For every odd depth, \<^verbatim>\<open>SinusoidalPositionEncoder.encode\<close> raises the
  \<^verbatim>\<open>ValueError\<close> of its first statement and returns no value, whatever the positions.
\<close>

theorem sinusoidal_encode_odd_depth:
  "odd depth \<Longrightarrow> SinusoidalPositionEncoder_encode self positions depth = Inl ValueError"
  by (simp add: SinusoidalPositionEncoder_encode_def odd_iff_mod_2_eq_one)

theorem sinusoidal_encode_odd_depth_witness:
  "odd (5::int) \<and>
   SinusoidalPositionEncoder_encode \<lparr>reducer = SumReducer, dtype = Float32\<rparr>
     (Tensor2 1 2 [[1, 2]]) 5 = Inl ValueError"
  using sinusoidal_encode_odd_depth
    [of 5 "\<lparr>reducer = SumReducer, dtype = Float32\<rparr>" "Tensor2 1 2 [[1, 2]]"]
  by simp




subsection \<open>PositionEmbedder\<close>

text \<open>
  C3. An embedder whose table \<^verbatim>\<open>build\<close> created for depth 2 does not raise when
  \<^verbatim>\<open>encode\<close> is called with depth 3: \<^verbatim>\<open>encode\<close> never reads its \<open>depth\<close> argument, and
  returns the row of depth 2, where its contract is a tensor of the depth it was asked
  for.
\<close>

theorem embedder_encode_depth_mismatch:
  "PositionEmbedder_build (\<lambda>i j. real (2 * i + j))
     \<lparr>reducer = SumReducer, dtype = Float32, maximum_position = 1, embeddings = None\<rparr> 2
     = Inr \<lparr>reducer = SumReducer, dtype = Float32, maximum_position = 1,
            embeddings = Some (Tensor2 2 2 [[0, 1], [2, 3]])\<rparr> \<and>
   built_for \<lparr>reducer = SumReducer, dtype = Float32, maximum_position = 1,
            embeddings = Some (Tensor2 2 2 [[0, 1], [2, 3]])\<rparr> 2 \<and>
   (3::int) \<noteq> int 2 \<and>
   PositionEmbedder_encode \<lparr>reducer = SumReducer, dtype = Float32, maximum_position = 1,
            embeddings = Some (Tensor2 2 2 [[0, 1], [2, 3]])\<rparr> (Tensor2 1 1 [[1]]) 3
     = Inr (Tensor3 1 1 2 [[[2, 3]]]) \<and>
   shape3 (Tensor3 1 1 2 [[[2, 3 :: real]]]) \<noteq> [1, 1, 3]"
  by (simp add: PositionEmbedder_build_def add_weight_def built_for_def wf2_def
      PositionEmbedder_encode_def tf_embedding_lookup_def tf_minimum_def valid_ids_def upt_rec
      shape3_def)

text \<open>
  C6. \<^verbatim>\<open>encode\<close> looks up the positions clamped to \<open>min p M\<close>, where \<open>M\<close> is
  \<open>maximum_position\<close>. A position beyond \<open>M\<close>, such as \<open>M + 5\<close>, gives what position
  \<open>M\<close> gives, which is row \<open>M\<close> of the table when \<open>M \<ge> 0\<close>. Positions below 0 are left
  as they are by the clamp.
\<close>

theorem embedder_encode_clamps:
  assumes "built_for self d0"
  shows "PositionEmbedder_encode self positions depth =
           tf_embedding_lookup (embeddings self)
             (Tensor2 (dim2_0 positions) (dim2_1 positions)
                (map (map (\<lambda>p. min p (maximum_position self))) (elems2 positions))) \<and>
         (\<forall>k\<ge>0. PositionEmbedder_encode self (Tensor2 1 1 [[maximum_position self + k]]) depth =
                 PositionEmbedder_encode self (Tensor2 1 1 [[maximum_position self]]) depth) \<and>
         (\<exists>table. embeddings self = Some table \<and>
            (0 \<le> maximum_position self \<longrightarrow>
               PositionEmbedder_encode self (Tensor2 1 1 [[maximum_position self + 5]]) depth =
                 Inr (Tensor3 1 1 d0 [[elems2 table ! nat (maximum_position self)]]))) \<and>
         (\<forall>p<0. min p (maximum_position self) = p) \<and>
         (list_all (list_all (\<lambda>p. p < 0)) (elems2 positions) \<longrightarrow>
            tf_minimum positions (maximum_position self) = positions)"
proof -
  from assms obtain table where t: "embeddings self = Some table"
    "0 \<le> maximum_position self + 1"
    "dim2_0 table = nat (maximum_position self + 1)" "dim2_1 table = d0"
    by (rule built_for_table)
  have a: "PositionEmbedder_encode self positions depth =
           tf_embedding_lookup (embeddings self)
             (Tensor2 (dim2_0 positions) (dim2_1 positions)
                (map (map (\<lambda>p. min p (maximum_position self))) (elems2 positions)))"
    by (simp add: PositionEmbedder_encode_def tf_minimum_def)
  have b: "PositionEmbedder_encode self (Tensor2 1 1 [[maximum_position self + k]]) depth =
           PositionEmbedder_encode self (Tensor2 1 1 [[maximum_position self]]) depth"
    if "0 \<le> k" for k
    using that by (simp add: PositionEmbedder_encode_def tf_minimum_def min_def)
  have c: "PositionEmbedder_encode self (Tensor2 1 1 [[maximum_position self + 5]]) depth =
           Inr (Tensor3 1 1 d0 [[elems2 table ! nat (maximum_position self)]])"
    if "0 \<le> maximum_position self"
    using embedder_encode_value [OF t(1,3) that, of "Tensor2 1 1 [[maximum_position self + 5]]" depth]
      that t(4) by simp
  have d: "tf_minimum positions (maximum_position self) = positions"
    if neg: "list_all (list_all (\<lambda>p. p < 0)) (elems2 positions)"
  proof -
    have "map (map (\<lambda>p. min p (maximum_position self))) (elems2 positions)
          = map (map (\<lambda>p. p)) (elems2 positions)"
      using neg t(2) by (intro map_cong refl) (fastforce simp: list_all_iff min_def)
    then show ?thesis
      by (simp add: tf_minimum_def)
  qed
  have e: "min p (maximum_position self) = p" if "p < 0" for p
    using that t(2) by simp
  show ?thesis
    using a b c d e t(1) by blast
qed

theorem embedder_encode_clamps_witness:
  "built_for \<lparr>reducer = SumReducer, dtype = Float32, maximum_position = 1,
               embeddings = Some (Tensor2 2 2 [[0, 1], [2, 3]])\<rparr> 2 \<and>
   PositionEmbedder_encode \<lparr>reducer = SumReducer, dtype = Float32, maximum_position = 1,
               embeddings = Some (Tensor2 2 2 [[0, 1], [2, 3]])\<rparr> (Tensor2 1 1 [[6]]) 2 =
     Inr (Tensor3 1 1 2 [[[2, 3]]]) \<and>
   PositionEmbedder_encode \<lparr>reducer = SumReducer, dtype = Float32, maximum_position = 1,
               embeddings = Some (Tensor2 2 2 [[0, 1], [2, 3]])\<rparr> (Tensor2 1 1 [[1]]) 2 =
     Inr (Tensor3 1 1 2 [[[2, 3]]]) \<and>
   tf_minimum (Tensor2 1 2 [[- 1, - 7]]) 1 = Tensor2 1 2 [[- 1, - 7]]"
proof -
  let ?s = "\<lparr>reducer = SumReducer, dtype = Float32, maximum_position = 1,
               embeddings = Some (Tensor2 2 2 [[0, 1], [2, 3 :: real]])\<rparr>"
  have built: "built_for ?s 2"
    by (simp add: built_for_def wf2_def)
  note th = embedder_encode_clamps [OF built]
  have "PositionEmbedder_encode ?s (Tensor2 1 1 [[6]]) 2 = Inr (Tensor3 1 1 2 [[[2, 3]]])"
    using th [of "Tensor2 1 1 [[6]]" 2, THEN conjunct2, THEN conjunct2, THEN conjunct1]
    by auto
  moreover have "PositionEmbedder_encode ?s (Tensor2 1 1 [[1]]) 2 =
      PositionEmbedder_encode ?s (Tensor2 1 1 [[6]]) 2"
    using th [of "Tensor2 1 1 [[6]]" 2, THEN conjunct2, THEN conjunct1, rule_format, of 5]
    by simp
  moreover have "tf_minimum (Tensor2 1 2 [[- 1, - 7]]) 1 = Tensor2 1 2 [[- 1, - 7]]"
    using th [of "Tensor2 1 2 [[- 1, - 7]]" 2, THEN conjunct2, THEN conjunct2, THEN conjunct2,
        THEN conjunct2]
    by simp
  ultimately show ?thesis
    using built by simp
qed

text \<open>
  C7. The index used for the lookup is not always in \<open>[0, M]\<close>: a negative position
  passes the clamp unchanged and reaches the lookup, where it is not a row of the table.
\<close>

theorem embedder_lookup_negative_counterexample:
  "built_for \<lparr>reducer = SumReducer, dtype = Float32, maximum_position = 1,
               embeddings = Some (Tensor2 2 2 [[0, 1], [2, 3]])\<rparr> 2 \<and>
   tf_minimum (Tensor2 1 1 [[- 1]]) 1 = Tensor2 1 1 [[- 1]] \<and>
   PositionEmbedder_encode \<lparr>reducer = SumReducer, dtype = Float32, maximum_position = 1,
               embeddings = Some (Tensor2 2 2 [[0, 1], [2, 3]])\<rparr> (Tensor2 1 1 [[- 1]]) 2
     = tf_embedding_lookup (Some (Tensor2 2 2 [[0, 1], [2, 3]])) (Tensor2 1 1 [[- 1]]) \<and>
   \<not> list_all (list_all (\<lambda>i. 0 \<le> i \<and> i \<le> 1)) (elems2 (tf_minimum (Tensor2 1 1 [[- 1]]) 1)) \<and>
   \<not> valid_ids (Tensor2 2 2 [[0, 1], [2, 3 :: real]]) (tf_minimum (Tensor2 1 1 [[- 1]]) 1)"
  by (simp add: built_for_def wf2_def PositionEmbedder_encode_def tf_minimum_def valid_ids_def)

text \<open>
  C7, as the code has it. For an embedder with \<open>M \<ge> 0\<close> and a table of shape
  \<open>[M + 1, D]\<close>, every index used for the lookup is at most \<open>M\<close>; when the positions are
  not negative, every index lies in \<open>[0, M]\<close>, is a row of the table, and the lookup
  returns the rows.
\<close>

theorem embedder_lookup_ids_in_range:
  assumes "built_for self d0" and "0 \<le> maximum_position self"
  shows "list_all (list_all (\<lambda>i. i \<le> maximum_position self))
           (elems2 (tf_minimum positions (maximum_position self))) \<and>
         (list_all (list_all (\<lambda>p. 0 \<le> p)) (elems2 positions) \<longrightarrow>
            list_all (list_all (\<lambda>i. 0 \<le> i \<and> i \<le> maximum_position self))
              (elems2 (tf_minimum positions (maximum_position self))) \<and>
            (\<exists>table. embeddings self = Some table \<and>
               valid_ids table (tf_minimum positions (maximum_position self)) \<and>
               PositionEmbedder_encode self positions depth =
                 Inr (Tensor3 (dim2_0 positions) (dim2_1 positions) d0
                        (map (map (\<lambda>p. elems2 table ! nat (min p (maximum_position self))))
                           (elems2 positions)))))"
proof -
  from assms(1) obtain table where t: "embeddings self = Some table"
    "dim2_0 table = nat (maximum_position self + 1)" "dim2_1 table = d0"
    by (rule built_for_table)
  have upper: "list_all (list_all (\<lambda>i. i \<le> maximum_position self))
           (elems2 (tf_minimum positions (maximum_position self)))"
    by (simp add: tf_minimum_def list_all_iff)
  have range: "list_all (list_all (\<lambda>i. 0 \<le> i \<and> i \<le> maximum_position self))
              (elems2 (tf_minimum positions (maximum_position self)))"
    and valid: "valid_ids table (tf_minimum positions (maximum_position self))"
    and run: "PositionEmbedder_encode self positions depth =
                 Inr (Tensor3 (dim2_0 positions) (dim2_1 positions) d0
                        (map (map (\<lambda>p. elems2 table ! nat (min p (maximum_position self))))
                           (elems2 positions)))"
    if nonneg: "list_all (list_all (\<lambda>p. 0 \<le> p)) (elems2 positions)"
  proof -
    show "list_all (list_all (\<lambda>i. 0 \<le> i \<and> i \<le> maximum_position self))
              (elems2 (tf_minimum positions (maximum_position self)))"
      using nonneg assms(2) by (auto simp: tf_minimum_def list_all_iff)
    then show "valid_ids table (tf_minimum positions (maximum_position self))"
      using t(2) assms(2) by (auto simp: valid_ids_def list_all_iff)
    show "PositionEmbedder_encode self positions depth =
                 Inr (Tensor3 (dim2_0 positions) (dim2_1 positions) d0
                        (map (map (\<lambda>p. elems2 table ! nat (min p (maximum_position self))))
                           (elems2 positions)))"
      using embedder_encode_value [OF t(1,2) assms(2) nonneg] t(3) by simp
  qed
  show ?thesis
    using upper range valid run t(1) by blast
qed

theorem embedder_lookup_ids_in_range_witness:
  "built_for \<lparr>reducer = SumReducer, dtype = Float32, maximum_position = 1,
               embeddings = Some (Tensor2 2 2 [[0, 1], [2, 3]])\<rparr> 2 \<and>
   list_all (list_all (\<lambda>p. 0 \<le> p)) (elems2 (Tensor2 1 3 [[0, 1, 9::int]])) \<and>
   elems2 (tf_minimum (Tensor2 1 3 [[0, 1, 9]]) 1) = [[0, 1, 1]] \<and>
   list_all (list_all (\<lambda>i. 0 \<le> i \<and> i \<le> 1)) (elems2 (tf_minimum (Tensor2 1 3 [[0, 1, 9]]) 1)) \<and>
   PositionEmbedder_encode \<lparr>reducer = SumReducer, dtype = Float32, maximum_position = 1,
               embeddings = Some (Tensor2 2 2 [[0, 1], [2, 3]])\<rparr> (Tensor2 1 3 [[0, 1, 9]]) 2
     = Inr (Tensor3 1 3 2 [[[0, 1], [2, 3], [2, 3]]])"
proof -
  let ?s = "\<lparr>reducer = SumReducer, dtype = Float32, maximum_position = 1,
               embeddings = Some (Tensor2 2 2 [[0, 1], [2, 3 :: real]])\<rparr>"
  have built: "built_for ?s 2"
    by (simp add: built_for_def wf2_def)
  have max: "0 \<le> maximum_position ?s"
    by simp
  have nonneg: "list_all (list_all (\<lambda>p. 0 \<le> p)) (elems2 (Tensor2 1 3 [[0, 1, 9::int]]))"
    by simp
  have ids: "elems2 (tf_minimum (Tensor2 1 3 [[0, 1, 9]]) 1) = [[0, 1, 1]]"
    by (simp add: tf_minimum_def)
  from embedder_lookup_ids_in_range [OF built max, of "Tensor2 1 3 [[0, 1, 9]]" 2] nonneg
  have "list_all (list_all (\<lambda>i. 0 \<le> i \<and> i \<le> 1)) (elems2 (tf_minimum (Tensor2 1 3 [[0, 1, 9]]) 1))"
    and "PositionEmbedder_encode ?s (Tensor2 1 3 [[0, 1, 9]]) 2
         = Inr (Tensor3 1 3 2 [[[0, 1], [2, 3], [2, 3]]])"
    by auto
  then show ?thesis
    using built nonneg ids by simp
qed

subsection \<open>PositionEncoder.call\<close>

lemma sinusoidal_encode_default_positions:
  assumes "even d" and "d \<noteq> 2"
  shows "\<exists>pe. SinusoidalPositionEncoder_encode s (Tensor2 1 n [[1..int n]]) (int d) = Inr pe \<and>
           wf3 pe \<and> shape3 pe = [1, n, d]"
proof -
  have wf: "wf2 (Tensor2 1 n [[1..int n]])"
    by (simp add: wf2_def)
  have "int d mod 2 = 0" "int d div 2 \<noteq> 1"
    using assms by (auto elim!: evenE)
  moreover have "nat (int d div 2) + nat (int d div 2) = d"
    using assms(1) by (auto elim!: evenE)
  ultimately show ?thesis
    using sinusoidal_encode_value [OF wf, of "int d" s]
    by (simp add: wf3_def shape3_def list_all_iff)
qed

lemma embedder_encode_default_positions:
  assumes "built_for s d" and "0 \<le> maximum_position s"
  shows "\<exists>pe. PositionEmbedder_encode s (Tensor2 1 n [[1..int n]]) (int d) = Inr pe \<and>
           wf3 pe \<and> shape3 pe = [1, n, d]"
proof -
  from assms(1) obtain table where t: "embeddings s = Some table" "wf2 table"
    "dim2_0 table = nat (maximum_position s + 1)" "dim2_1 table = d"
    by (rule built_for_table)
  have nonneg: "list_all (list_all (\<lambda>p. 0 \<le> p)) (elems2 (Tensor2 1 n [[1..int n]]))"
    by (simp add: list_all_iff)
  have "length (elems2 table ! nat (min p (maximum_position s))) = d" if "1 \<le> p" for p
  proof -
    have "nat (min p (maximum_position s)) < length (elems2 table)"
      using that assms(2) t(2,3) by (simp add: wf2_def min_def)
    then show ?thesis
      using t(2,4) by (simp add: wf2_def list_all_length)
  qed
  then show ?thesis
    using embedder_encode_value [OF t(1,3) assms(2) nonneg, of "int d"] t(4)
    by (simp add: wf3_def shape3_def list_all_iff)
qed

text \<open>
  C4. Without a position, \<^verbatim>\<open>call\<close> on inputs of shape \<open>[B, T, D]\<close> hands to the
  \<^verbatim>\<open>encode\<close> of the layer the tensor of shape \<open>[1, T]\<close> whose one row is
  \<open>1, 2, ..., T\<close>, with depth \<open>D\<close>: one row of positions for the whole batch, which the
  result of \<^verbatim>\<open>encode\<close> is then tiled to.
\<close>

theorem call_default_positions:
  "call self inputs None =
     (case encode self (Tensor2 1 (dim3_1 inputs) [[1..int (dim3_1 inputs)]])
             (int (dim3_2 inputs)) of
        Inl e \<Rightarrow> Inl e
      | Inr position_encoding \<Rightarrow>
          reducer_of self [inputs, tf_tile_batch position_encoding (dim3_0 inputs)])"
  by (simp add: call_def Let_def length_tf_range_plus_1 tf_range_plus_1_upto [symmetric])

text \<open>
  C8. \<^verbatim>\<open>call\<close> does not return a tensor for every input: it hands on the error of
  \<^verbatim>\<open>encode\<close>. With the sinusoidal encoder and inputs of shape \<open>[3, 5, 7]\<close> the odd depth
  is rejected.
\<close>

theorem call_sum_odd_depth_counterexample:
  "reducer_of (SinusoidalPositionEncoder \<lparr>reducer = SumReducer, dtype = Float32\<rparr>) = SumReducer \<and>
   wf3 (Tensor3 3 5 7 (replicate 3 (replicate 5 (replicate 7 (0::real))))) \<and>
   call (SinusoidalPositionEncoder \<lparr>reducer = SumReducer, dtype = Float32\<rparr>)
     (Tensor3 3 5 7 (replicate 3 (replicate 5 (replicate 7 0)))) None = Inl ValueError"
  by (simp add: reducer_of_def wf3_def list_all_iff call_def encode_def
      SinusoidalPositionEncoder_encode_def)

text \<open>
  C8, as the code has it. Without a position and with the sum reducer, when the
  \<^verbatim>\<open>encode\<close> of the layer returns its encoding of shape \<open>[1, T, D]\<close> for inputs of shape
  \<open>[B, T, D]\<close>, \<^verbatim>\<open>call\<close> returns a tensor of shape \<open>[B, T, D]\<close>, the sum of the inputs
  and the tiled encoding; the tiled encoding has shape \<open>[B, T, D]\<close> and its \<open>B\<close> batch rows
  are all the one row of the encoding.
\<close>

theorem call_sum_shape:
  assumes red: "reducer_of self = SumReducer"
    and enc: "encode self (Tensor2 1 (dim3_1 inputs) [[1..int (dim3_1 inputs)]])
                (int (dim3_2 inputs)) = Inr pe"
    and wf: "wf3 pe" and shape: "shape3 pe = [1, dim3_1 inputs, dim3_2 inputs]"
  shows "\<exists>out. call self inputs None = Inr out \<and>
           shape3 out = [dim3_0 inputs, dim3_1 inputs, dim3_2 inputs] \<and>
           SumReducer [inputs, tf_tile_batch pe (dim3_0 inputs)] = Inr out \<and>
           shape3 (tf_tile_batch pe (dim3_0 inputs)) =
             [dim3_0 inputs, dim3_1 inputs, dim3_2 inputs] \<and>
           elems3 (tf_tile_batch pe (dim3_0 inputs)) =
             replicate (dim3_0 inputs) (hd (elems3 pe)) \<and>
           (\<forall>b<dim3_0 inputs. \<forall>b'<dim3_0 inputs.
              elems3 (tf_tile_batch pe (dim3_0 inputs)) ! b =
              elems3 (tf_tile_batch pe (dim3_0 inputs)) ! b')"
proof -
  let ?tiled = "tf_tile_batch pe (dim3_0 inputs)"
  have tshape: "shape3 ?tiled = [dim3_0 inputs, dim3_1 inputs, dim3_2 inputs]"
    using shape by (simp add: shape3_def tf_tile_batch_def)
  then have "shape3 inputs = shape3 ?tiled"
    by (simp add: shape3_def)
  then obtain out where out: "add3 inputs ?tiled = Inr out"
    using add3_Inr_iff by blast
  have run: "call self inputs None = Inr out"
    using enc out
    by (simp add: call_def Let_def length_tf_range_plus_1 tf_range_plus_1_upto [symmetric]
        red SumReducer_pair)
  have oshape: "shape3 out = [dim3_0 inputs, dim3_1 inputs, dim3_2 inputs]"
    using add3_shape [OF out] by (simp add: shape3_def)
  have rows: "elems3 ?tiled = replicate (dim3_0 inputs) (hd (elems3 pe))"
    using wf shape by (intro tf_tile_batch_one_row) (simp_all add: shape3_def)
  show ?thesis
    using run oshape out tshape rows by (simp add: SumReducer_pair)
qed

theorem call_sum_shape_witness:
  "reducer_of (SinusoidalPositionEncoder \<lparr>reducer = SumReducer, dtype = Float32\<rparr>) = SumReducer \<and>
   (\<exists>pe. encode (SinusoidalPositionEncoder \<lparr>reducer = SumReducer, dtype = Float32\<rparr>)
            (Tensor2 1 5 [[1, 2, 3, 4, 5]]) 8 = Inr pe \<and>
         wf3 pe \<and> shape3 pe = [1, 5, 8] \<and>
         (\<exists>out. call (SinusoidalPositionEncoder \<lparr>reducer = SumReducer, dtype = Float32\<rparr>)
                   (Tensor3 3 5 8 (replicate 3 (replicate 5 (replicate 8 0)))) None = Inr out \<and>
                shape3 out = [3, 5, 8] \<and>
                elems3 (tf_tile_batch pe 3) = [hd (elems3 pe), hd (elems3 pe), hd (elems3 pe)]))"
proof -
  let ?self = "SinusoidalPositionEncoder \<lparr>reducer = SumReducer, dtype = Float32\<rparr>"
  let ?inputs = "Tensor3 3 5 8 (replicate 3 (replicate 5 (replicate 8 (0::real))))"
  have red: "reducer_of ?self = SumReducer"
    by (simp add: reducer_of_def)
  have five: "[1..5] = [1, 2, 3, 4, 5::int]"
    by (simp add: upto_rec1)
  obtain pe where pe:
    "encode ?self (Tensor2 1 (dim3_1 ?inputs) [[1..int (dim3_1 ?inputs)]]) (int (dim3_2 ?inputs))
       = Inr pe"
    "wf3 pe" "shape3 pe = [1, dim3_1 ?inputs, dim3_2 ?inputs]"
    using sinusoidal_encode_default_positions [of 8 "\<lparr>reducer = SumReducer, dtype = Float32\<rparr>" 5]
    by (auto simp: encode_def)
  from call_sum_shape [OF red pe]
  obtain out where "call ?self ?inputs None = Inr out" "shape3 out = [3, 5, 8]"
    "elems3 (tf_tile_batch pe 3) = replicate 3 (hd (elems3 pe))"
    by auto
  then show ?thesis
    using red pe by (auto simp: five numeral_3_eq_3)
qed

text \<open>
  C10. With a position \<open>p\<close>, \<^verbatim>\<open>call\<close> hands to \<^verbatim>\<open>encode\<close> the tensor of shape
  \<open>[1, 1]\<close> holding \<open>p\<close>, whatever \<open>T\<close> is, so the encoding and its tiling have time
  dimension 1. With the sum reducer, \<^verbatim>\<open>call\<close> returns a value only when \<open>T = 1\<close>, and
  when the encoding has the depth of the inputs it returns a value exactly when \<open>T = 1\<close>.
\<close>

theorem call_explicit_position:
  assumes red: "reducer_of self = SumReducer"
  shows "call self inputs (Some p) =
           (case encode self (Tensor2 1 1 [[p]]) (int (dim3_2 inputs)) of
              Inl e \<Rightarrow> Inl e
            | Inr pe \<Rightarrow> SumReducer [inputs, tf_tile_batch pe (dim3_0 inputs)]) \<and>
         (\<forall>pe. encode self (Tensor2 1 1 [[p]]) (int (dim3_2 inputs)) = Inr pe \<longrightarrow>
            dim3_1 pe = 1 \<and> dim3_1 (tf_tile_batch pe (dim3_0 inputs)) = 1 \<and>
            (dim3_2 pe = dim3_2 inputs \<longrightarrow>
               ((\<exists>out. call self inputs (Some p) = Inr out) \<longleftrightarrow> dim3_1 inputs = 1))) \<and>
         (\<forall>out. call self inputs (Some p) = Inr out \<longrightarrow> dim3_1 inputs = 1)"
proof -
  have run: "call self inputs (Some p) =
           (case encode self (Tensor2 1 1 [[p]]) (int (dim3_2 inputs)) of
              Inl e \<Rightarrow> Inl e
            | Inr pe \<Rightarrow> SumReducer [inputs, tf_tile_batch pe (dim3_0 inputs)])"
    by (simp add: call_def Let_def red split: sum.splits)
  have one: "dim3_1 pe = 1" "dim3_1 (tf_tile_batch pe (dim3_0 inputs)) = 1"
    and iff: "dim3_2 pe = dim3_2 inputs \<Longrightarrow>
              (\<exists>out. call self inputs (Some p) = Inr out) \<longleftrightarrow> dim3_1 inputs = 1"
    and only: "call self inputs (Some p) = Inr out \<Longrightarrow> dim3_1 inputs = 1"
    if enc: "encode self (Tensor2 1 1 [[p]]) (int (dim3_2 inputs)) = Inr pe" for pe out
  proof -
    have d: "dim3_0 pe = 1" "dim3_1 pe = 1"
      using encode_dims [OF enc] by simp_all
    then show "dim3_1 pe = 1" "dim3_1 (tf_tile_batch pe (dim3_0 inputs)) = 1"
      by (simp_all add: tf_tile_batch_def)
    have call: "call self inputs (Some p) = add3 inputs (tf_tile_batch pe (dim3_0 inputs))"
      using enc by (simp add: run SumReducer_pair)
    have shape: "shape3 (tf_tile_batch pe (dim3_0 inputs)) = [dim3_0 inputs, 1, dim3_2 pe]"
      using d by (simp add: shape3_def tf_tile_batch_def)
    show "(\<exists>out. call self inputs (Some p) = Inr out) \<longleftrightarrow> dim3_1 inputs = 1"
      if "dim3_2 pe = dim3_2 inputs"
      unfolding call add3_Inr_iff shape using that by (auto simp: shape3_def)
    show "dim3_1 inputs = 1" if "call self inputs (Some p) = Inr out"
      using that add3_Inr_iff [of inputs "tf_tile_batch pe (dim3_0 inputs)"]
      unfolding call shape by (auto simp: shape3_def)
  qed
  have only': "dim3_1 inputs = 1" if "call self inputs (Some p) = Inr out" for out
  proof (cases "encode self (Tensor2 1 1 [[p]]) (int (dim3_2 inputs))")
    case (Inl e)
    with that show ?thesis by (simp add: run)
  next
    case (Inr pe)
    from only [OF this that] show ?thesis .
  qed
  show ?thesis
    using run one iff only' by blast
qed

theorem call_explicit_position_witness:
  "reducer_of (SinusoidalPositionEncoder \<lparr>reducer = SumReducer, dtype = Float32\<rparr>) = SumReducer \<and>
   (\<exists>pe. encode (SinusoidalPositionEncoder \<lparr>reducer = SumReducer, dtype = Float32\<rparr>)
            (Tensor2 1 1 [[7]]) 4 = Inr pe \<and> shape3 pe = [1, 1, 4]) \<and>
   (\<exists>out. call (SinusoidalPositionEncoder \<lparr>reducer = SumReducer, dtype = Float32\<rparr>)
             (Tensor3 2 1 4 [[[0, 0, 0, 0]], [[0, 0, 0, 0]]]) (Some 7) = Inr out) \<and>
   \<not> (\<exists>out. call (SinusoidalPositionEncoder \<lparr>reducer = SumReducer, dtype = Float32\<rparr>)
               (Tensor3 2 3 4 (replicate 2 (replicate 3 [0, 0, 0, 0]))) (Some 7) = Inr out)"
proof -
  let ?self = "SinusoidalPositionEncoder \<lparr>reducer = SumReducer, dtype = Float32\<rparr>"
  let ?one = "Tensor3 2 1 4 [[[0, 0, 0, 0]], [[0, 0, 0, 0 :: real]]]"
  let ?three = "Tensor3 2 3 4 (replicate 2 (replicate 3 [0, 0, 0, 0 :: real]))"
  have red: "reducer_of ?self = SumReducer"
    by (simp add: reducer_of_def)
  have "wf2 (Tensor2 1 1 [[7::int]])"
    by (simp add: wf2_def)
  from sinusoidal_encode_value [OF this, of 4 "\<lparr>reducer = SumReducer, dtype = Float32\<rparr>"]
  obtain pe where pe: "encode ?self (Tensor2 1 1 [[7]]) 4 = Inr pe" "shape3 pe = [1, 1, 4]"
    by (simp add: encode_def shape3_def)
  have "(\<exists>out. call ?self ?one (Some 7) = Inr out) \<longleftrightarrow> dim3_1 ?one = 1"
    using call_explicit_position [OF red, of ?one 7, THEN conjunct2, THEN conjunct1,
        rule_format, of pe] pe
    by (simp add: shape3_def)
  then have "\<exists>out. call ?self ?one (Some 7) = Inr out"
    by simp
  moreover have "\<not> (\<exists>out. call ?self ?three (Some 7) = Inr out)"
    using call_explicit_position [OF red, of ?three 7] by auto
  ultimately show ?thesis
    using red pe by blast
qed

end
